theory Spec2Isabelle
  imports Main "HOL-Library.Word"
begin

unbundle bit_operations_syntax

section \<open>Data model\<close>

text \<open>
  The package \<^verbatim>\<open>connect\<close> (file \<^verbatim>\<open>connect/connect.go\<close>) reads length-prefixed
  FE/BE messages from a \<^verbatim>\<open>net.Conn\<close> and opens backend connections, with an optional
  SSL negotiation. Bytes are 8-bit words, \<^verbatim>\<open>uint32\<close> is a 32-bit word and Go's
  \<^verbatim>\<open>int\<close> is taken as the 64-bit signed integer of the usual targets (amd64, arm64).
\<close>

type_synonym byte = "8 word"
type_synonym uint32 = "32 word"
type_synonym go_int = "64 word"

text \<open>
  The values of Go's \<^verbatim>\<open>error\<close> that occur: \<^verbatim>\<open>io.EOF\<close>, \<^verbatim>\<open>io.ErrUnexpectedEOF\<close>,
  the error of an operation on a closed connection, and any other error of the network,
  numbered.
\<close>

datatype error = EOF | ErrUnexpectedEOF | ErrClosed | NetError nat

text \<open>A run-time panic: \<^verbatim>\<open>make([]byte, n)\<close> with a negative length.\<close>

datatype panic = MakeSliceLenOutOfRange

text \<open>The calls made on a connection, in order, with the size of the buffer handed to
  \<^verbatim>\<open>Read\<close> and the bytes handed to \<^verbatim>\<open>Write\<close>.\<close>

datatype call = ReadCall nat | WriteCall "byte list" | CloseCall

text \<open>
  A \<^verbatim>\<open>net.Conn\<close>, as far as this package can observe it:
  \<^item> \<open>rd\<close>: the segments that the peer delivers, one per successful \<^verbatim>\<open>Read\<close>
    (a segment longer than the buffer is delivered in pieces; an empty segment is a
    \<^verbatim>\<open>Read\<close> that returns 0 bytes and no error);
  \<^item> \<open>rd_end\<close>: the error of every \<^verbatim>\<open>Read\<close> once the segments are used up
    (\<open>EOF\<close> when the peer has closed the stream);
  \<^item> \<open>wr\<close>: the bytes written so far; \<open>wr_err\<close>: the error with which \<^verbatim>\<open>Write\<close>
    fails, if it does;
  \<^item> \<open>closed\<close>: whether \<^verbatim>\<open>Close\<close> has been called on this side;
  \<^item> \<open>calls\<close>: the calls made so far.
  A peer that stays silent for ever (a \<^verbatim>\<open>Read\<close> that never returns) is not part of the
  model: every script of segments ends with an error.
\<close>

record conn =
  rd :: "byte list list"
  rd_end :: error
  wr :: "byte list"
  wr_err :: "error option"
  closed :: bool
  calls :: "call list"

section \<open>The connection's methods and the library functions used\<close>

definition conn_Read :: "conn \<Rightarrow> nat \<Rightarrow> (error + byte list) \<times> conn" where
  "conn_Read c k =
     (let c = c\<lparr>calls := calls c @ [ReadCall k]\<rparr> in
      if closed c then (Inl ErrClosed, c)
      else (case rd c of
              [] \<Rightarrow> (Inl (rd_end c), c)
            | seg # rest \<Rightarrow>
                if length seg \<le> k then (Inr seg, c\<lparr>rd := rest\<rparr>)
                else (Inr (take k seg), c\<lparr>rd := drop k seg # rest\<rparr>)))"

definition conn_Write :: "conn \<Rightarrow> byte list \<Rightarrow> (error + nat) \<times> conn" where
  "conn_Write c message =
     (let c = c\<lparr>calls := calls c @ [WriteCall message]\<rparr> in
      if closed c then (Inl ErrClosed, c)
      else (case wr_err c of
              Some e \<Rightarrow> (Inl e, c)
            | None \<Rightarrow> (Inr (length message), c\<lparr>wr := wr c @ message\<rparr>)))"

definition conn_Close :: "conn \<Rightarrow> conn" where
  "conn_Close c = c\<lparr>closed := True, calls := calls c @ [CloseCall]\<rparr>"

text \<open>
  \<^verbatim>\<open>io.ReadFull(r, buf)\<close> calls \<^verbatim>\<open>r.Read(buf[n:])\<close> until \<open>n\<close> reaches the length
  of the buffer or a \<^verbatim>\<open>Read\<close> fails. With an empty buffer it calls nothing. An
  \<open>EOF\<close> after some bytes have been read becomes \<open>ErrUnexpectedEOF\<close>. The loop
  collects the bytes read; \<open>ReadFull\<close> returns the buffer with those bytes copied over
  its front, their number and the error. A \<^verbatim>\<open>Read\<close> of this model returns bytes or an
  error, never both.
\<close>

function ReadFull_loop :: "conn \<Rightarrow> nat \<Rightarrow> byte list \<Rightarrow> (byte list \<times> error option) \<times> conn" where
  "ReadFull_loop c k acc =
     (if length acc < k then
        (case conn_Read c (k - length acc) of
           (Inl e, c') \<Rightarrow>
             ((acc, Some (if 0 < length acc \<and> e = EOF then ErrUnexpectedEOF else e)), c')
         | (Inr bs, c') \<Rightarrow> ReadFull_loop c' k (acc @ bs))
      else ((acc, None), c))"
  by pat_completeness auto

termination
proof (relation "measure (\<lambda>(c, k, acc). length (rd c) + (k - length acc))", goal_cases)
  case 1
  show ?case by simp
next
  case (2 c k acc x c' bs)
  then have "conn_Read c (k - length acc) = (Inr bs, c')"
    by simp
  then have "length bs \<le> k - length acc \<and>
      (length (rd c') < length (rd c) \<or>
       (length (rd c') = length (rd c) \<and> length bs = k - length acc))"
    by (auto simp: conn_Read_def Let_def split: if_splits list.splits)
  with 2(1) show ?case
    by auto
qed

definition ReadFull :: "conn \<Rightarrow> byte list \<Rightarrow> (byte list \<times> nat \<times> error option) \<times> conn" where
  "ReadFull c buf =
     (case ReadFull_loop c (length buf) [] of
        ((bs, err), c') \<Rightarrow> ((bs @ drop (length bs) buf, length bs, err), c'))"

text \<open>\<^verbatim>\<open>binary.BigEndian.Uint32(b)\<close>:
  \<^verbatim>\<open>uint32(b[3]) | uint32(b[2])<<8 | uint32(b[1])<<16 | uint32(b[0])<<24\<close>.
  It is applied to slices of four bytes only.\<close>

definition BigEndian_Uint32 :: "byte list \<Rightarrow> uint32" where
  "BigEndian_Uint32 b =
     ucast (b ! 3) OR push_bit 8 (ucast (b ! 2)) OR push_bit 16 (ucast (b ! 1))
       OR push_bit 24 (ucast (b ! 0))"

text \<open>\<^verbatim>\<open>make([]byte, n)\<close> for an \<^verbatim>\<open>int\<close> that is not a constant: a slice of \<open>n\<close> zero
  bytes, and a panic of the run-time system when \<open>n\<close> is negative. (Running out of
  memory for a large \<open>n\<close> is not modelled.)\<close>

definition make_bytes :: "go_int \<Rightarrow> panic + byte list" where
  "make_bytes n =
     (if sint n < 0 then Inl MakeSliceLenOutOfRange else Inr (replicate (nat (sint n)) 0))"

section \<open>The functions of the package\<close>

definition Send :: "conn \<Rightarrow> byte list \<Rightarrow> (error + nat) \<times> conn" where
  "Send connection message = conn_Write connection message"

text \<open>
  Both receive functions return \<^verbatim>\<open>([]byte, int, error)\<close>, or panic. The \<^verbatim>\<open>bytes.Buffer\<close>
  is the list of the bytes written to it; a \<^verbatim>\<open>nil\<close> slice is the empty list.
\<close>

definition ReceiveStartupMessage ::
  "conn \<Rightarrow> (panic + byte list \<times> int \<times> error option) \<times> conn" where
  "ReceiveStartupMessage connection =
     (let buffer = [];
          header = replicate 4 0
      in case ReadFull connection header of
           ((header, _, Some err), connection) \<Rightarrow> (Inr ([], 0, Some err), connection)
         | ((header, _, None), connection) \<Rightarrow>
             (let buffer = buffer @ header;
                  n = ucast (BigEndian_Uint32 header) - (4 :: go_int)
              in case make_bytes n of
                   Inl p \<Rightarrow> (Inl p, connection)
                 | Inr payload \<Rightarrow>
                     (case ReadFull connection payload of
                        ((payload, _, Some err), connection) \<Rightarrow>
                          (Inr ([], 0, Some err), connection)
                      | ((payload, _, None), connection) \<Rightarrow>
                          (let buffer = buffer @ payload
                           in (Inr (buffer, int (length buffer), None), connection)))))"

definition Receive ::
  "conn \<Rightarrow> (panic + byte list \<times> int \<times> error option) \<times> conn" where
  "Receive connection =
     (let buffer = [];
          header = replicate 5 0
      in case ReadFull connection header of
           ((header, _, Some err), connection) \<Rightarrow> (Inr ([], 0, Some err), connection)
         | ((header, _, None), connection) \<Rightarrow>
             (let buffer = buffer @ header;
                  n = ucast (BigEndian_Uint32 (take 4 (drop 1 header))) - (4 :: go_int)
              in case make_bytes n of
                   Inl p \<Rightarrow> (Inl p, connection)
                 | Inr payload \<Rightarrow>
                     (case ReadFull connection payload of
                        ((payload, n, Some err), connection) \<Rightarrow>
                          (Inr ([], int n, Some err), connection)
                      | ((payload, n, None), connection) \<Rightarrow>
                          (let buffer = buffer @ payload
                           in (Inr (buffer, int (length buffer), None), connection)))))"

text \<open>
  Modelled from the spec: \<^verbatim>\<open>protocol.NewMessageBuffer\<close> is not among the sources. The
  spec describes the message built with it as a sequence of bytes ("an 8-byte
  StartupMessage"), so a message buffer is the list of its bytes, and a new one holds the
  bytes given.
\<close>

definition NewMessageBuffer :: "byte list \<Rightarrow> byte list" where
  "NewMessageBuffer bs = bs"

text \<open>
  Modelled from the spec: \<^verbatim>\<open>MessageBuffer.WriteInt32\<close> is not among the sources. The
  spec has the SSL request as "Length field = 8" followed by "a single fixed 4-byte
  negotiation code", "big-endian throughout": \<open>WriteInt32\<close> appends the four bytes of
  the value, most significant first.
\<close>

definition WriteInt32 :: "byte list \<Rightarrow> uint32 \<Rightarrow> byte list" where
  "WriteInt32 message v =
     message @ [ucast (drop_bit 24 v), ucast (drop_bit 16 v), ucast (drop_bit 8 v), ucast v]"

text \<open>
  What \<open>Connect\<close> takes from outside this file: the outcome of \<^verbatim>\<open>net.Dial("tcp", host)\<close>,
  the configuration flag \<^verbatim>\<open>credentials.ssl.enable\<close>, the constant
  \<^verbatim>\<open>protocol.SSLRequestCode\<close> and the function \<^verbatim>\<open>UpgradeClientConnection\<close>.
  Logging has no effect on the control flow and is left out.
\<close>

record env =
  Dial :: "string \<Rightarrow> error + conn"
  ssl_enable :: bool
  SSLRequestCode :: uint32
  UpgradeClientConnection :: "string \<Rightarrow> conn \<Rightarrow> conn"

text \<open>
  \<open>Connect\<close> returns \<^verbatim>\<open>(net.Conn, error)\<close>: the connection handle (\<open>None\<close> for
  \<^verbatim>\<open>nil\<close>) and the error (\<open>None\<close> for \<^verbatim>\<open>nil\<close>). The third component is not
  returned by the Go function: it is the state in which the call leaves the dialed
  socket (\<open>None\<close> when the dial failed), kept so that the calls made on it can be
  stated.
\<close>

definition Connect :: "env \<Rightarrow> string \<Rightarrow> conn option \<times> error option \<times> conn option" where
  "Connect E host =
     (case Dial E host of
        Inl err \<Rightarrow> (None, Some err, None)
      | Inr connection \<Rightarrow>
          if ssl_enable E then
            (let message = NewMessageBuffer [];
                 message = WriteInt32 message 8;
                 message = WriteInt32 message (SSLRequestCode E)
             in case conn_Write connection message of
                  (Inl err, connection) \<Rightarrow> (None, Some err, Some connection)
                | (Inr _, connection) \<Rightarrow>
                    (let response = replicate 4096 (0 :: byte)
                     in case conn_Read connection (length response) of
                          (Inl err, connection) \<Rightarrow> (None, Some err, Some connection)
                        | (Inr bs, connection) \<Rightarrow>
                            (let response = bs @ drop (length bs) response
                             in if length response > 0 \<and> response ! 0 \<noteq> 0x53 then
                                  (let connection = conn_Close connection
                                   in (Some connection, None, Some connection))
                                else
                                  (let connection = UpgradeClientConnection E host connection
                                   in (Some connection, None, Some connection)))))
          else (Some connection, None, Some connection))"

text \<open>The SSL request that \<open>Connect\<close> builds and writes.\<close>

abbreviation SSLRequestMessage :: "env \<Rightarrow> byte list" where
  "SSLRequestMessage E \<equiv> WriteInt32 (WriteInt32 (NewMessageBuffer []) 8) (SSLRequestCode E)"

text \<open>The connection after the header and the payload have been read.\<close>

definition after_frame :: "conn \<Rightarrow> nat \<Rightarrow> nat \<Rightarrow> conn" where
  "after_frame c h p = snd (ReadFull (snd (ReadFull c (replicate h 0))) (replicate p 0))"

section \<open>Reading a whole buffer\<close>

declare ReadFull_loop.simps [simp del]

lemma ReadFull_loop_done:
  "\<not> length acc < k \<Longrightarrow> ReadFull_loop c k acc = ((acc, None), c)"
  by (subst ReadFull_loop.simps) simp

lemma ReadFull_loop_step:
  "length acc < k \<Longrightarrow> conn_Read c (k - length acc) = (Inr bs, c') \<Longrightarrow>
     ReadFull_loop c k acc = ReadFull_loop c' k (acc @ bs)"
  by (subst ReadFull_loop.simps) simp

lemma ReadFull_loop_fail:
  "length acc < k \<Longrightarrow> conn_Read c (k - length acc) = (Inl e, c') \<Longrightarrow>
     ReadFull_loop c k acc =
       ((acc, Some (if 0 < length acc \<and> e = EOF then ErrUnexpectedEOF else e)), c')"
  by (subst ReadFull_loop.simps) simp

lemma conn_Read_fields:
  "conn_Read c k = (r, c') \<Longrightarrow>
     closed c' = closed c \<and> rd_end c' = rd_end c \<and> wr c' = wr c \<and> wr_err c' = wr_err c"
  by (auto simp: conn_Read_def Let_def split: if_splits list.splits)

lemma conn_Read_open_Inr:
  "\<not> closed c \<Longrightarrow> conn_Read c k = (Inr bs, c') \<Longrightarrow>
     bs @ concat (rd c') = concat (rd c) \<and> length bs \<le> k"
  by (auto simp: conn_Read_def Let_def split: if_splits list.splits)

lemma conn_Read_open_Inl:
  "\<not> closed c \<Longrightarrow> conn_Read c k = (Inl e, c') \<Longrightarrow> rd c = [] \<and> e = rd_end c \<and> rd c' = []"
  by (auto simp: conn_Read_def Let_def split: if_splits list.splits)

lemma ReadFull_loop_enough:
  "\<not> closed c \<Longrightarrow> length acc \<le> k \<Longrightarrow> k \<le> length acc + length (concat (rd c)) \<Longrightarrow>
     fst (ReadFull_loop c k acc) = (take k (acc @ concat (rd c)), None) \<and>
     concat (rd (snd (ReadFull_loop c k acc))) = drop (k - length acc) (concat (rd c)) \<and>
     \<not> closed (snd (ReadFull_loop c k acc)) \<and>
     rd_end (snd (ReadFull_loop c k acc)) = rd_end c"
proof (induction c k acc rule: ReadFull_loop.induct)
  case (1 c k acc)
  show ?case
  proof (cases "length acc < k")
    case False
    with 1(3) show ?thesis using 1(2) by (simp add: ReadFull_loop_done)
  next
    case True
    obtain r c' where r: "conn_Read c (k - length acc) = (r, c')"
      by (cases "conn_Read c (k - length acc)")
    show ?thesis
    proof (cases r)
      case (Inl e)
      with r 1(2) have "rd c = []" using conn_Read_open_Inl by blast
      with True 1(4) show ?thesis by simp
    next
      case (Inr bs)
      with r 1(2) have bs: "bs @ concat (rd c') = concat (rd c)" "length bs \<le> k - length acc"
        using conn_Read_open_Inr by blast+
      from r have f: "closed c' = closed c" "rd_end c' = rd_end c"
        using conn_Read_fields by blast+
      have len: "length (concat (rd c)) = length bs + length (concat (rd c'))"
        using bs(1) by (metis length_append)
      have IH: "fst (ReadFull_loop c' k (acc @ bs)) = (take k ((acc @ bs) @ concat (rd c')), None) \<and>
     concat (rd (snd (ReadFull_loop c' k (acc @ bs)))) = drop (k - length (acc @ bs)) (concat (rd c')) \<and>
     \<not> closed (snd (ReadFull_loop c' k (acc @ bs))) \<and>
     rd_end (snd (ReadFull_loop c' k (acc @ bs))) = rd_end c'"
      proof (rule 1(1) [OF True r [symmetric] Inr])
        show "\<not> closed c'" using f(1) 1(2) by simp
        show "length (acc @ bs) \<le> k" using bs(2) True by simp
        show "k \<le> length (acc @ bs) + length (concat (rd c'))" using 1(4) len by simp
      qed
      have step: "ReadFull_loop c k acc = ReadFull_loop c' k (acc @ bs)"
        using True r Inr by (simp add: ReadFull_loop_step)
      have d: "drop (k - length (acc @ bs)) (concat (rd c')) = drop (k - length acc) (concat (rd c))"
      proof -
        have "drop (k - length acc) (concat (rd c)) = drop (k - length acc) (bs @ concat (rd c'))"
          using bs(1) by simp
        also have "\<dots> = drop (k - length acc - length bs) (concat (rd c'))"
          using bs(2) by simp
        finally show ?thesis by (simp add: diff_diff_left)
      qed
      show ?thesis
        unfolding step using IH d f bs(1) by (simp)
    qed
  qed
qed

lemma ReadFull_loop_short:
  "\<not> closed c \<Longrightarrow> length acc + length (concat (rd c)) < k \<Longrightarrow>
     fst (ReadFull_loop c k acc) =
       (acc @ concat (rd c),
        Some (if 0 < length (acc @ concat (rd c)) \<and> rd_end c = EOF
              then ErrUnexpectedEOF else rd_end c))"
proof (induction c k acc rule: ReadFull_loop.induct)
  case (1 c k acc)
  from 1(3) have lt: "length acc < k" by simp
  obtain r c' where r: "conn_Read c (k - length acc) = (r, c')"
    by (cases "conn_Read c (k - length acc)")
  show ?case
  proof (cases r)
    case (Inl e)
    with r 1(2) have "rd c = []" "e = rd_end c"
      using conn_Read_open_Inl by blast+
    then show ?thesis
      using lt r Inl by (simp add: ReadFull_loop_fail)
  next
    case (Inr bs)
    with r 1(2) have bs: "bs @ concat (rd c') = concat (rd c)"
      using conn_Read_open_Inr by blast
    from r have f: "closed c' = closed c" "rd_end c' = rd_end c"
      using conn_Read_fields by blast+
    have len: "length (concat (rd c)) = length bs + length (concat (rd c'))"
      using bs by (metis length_append)
    have IH: "fst (ReadFull_loop c' k (acc @ bs)) =
       ((acc @ bs) @ concat (rd c'),
        Some (if 0 < length ((acc @ bs) @ concat (rd c')) \<and> rd_end c' = EOF
              then ErrUnexpectedEOF else rd_end c'))"
    proof (rule 1(1) [OF lt r [symmetric] Inr])
      show "\<not> closed c'" using f(1) 1(2) by simp
      show "length (acc @ bs) + length (concat (rd c')) < k" using 1(3) len by simp
    qed
    have step: "ReadFull_loop c k acc = ReadFull_loop c' k (acc @ bs)"
      using lt r Inr by (simp add: ReadFull_loop_step)
    have app: "(acc @ bs) @ concat (rd c') = acc @ concat (rd c)"
      using bs by simp
    show ?thesis
      unfolding step IH app f(2) ..
  qed
qed

lemma ReadFull_enough:
  assumes "\<not> closed c" and "length buf \<le> length (concat (rd c))"
  shows "fst (ReadFull c buf) = (take (length buf) (concat (rd c)), length buf, None)"
    and "concat (rd (snd (ReadFull c buf))) = drop (length buf) (concat (rd c))"
    and "\<not> closed (snd (ReadFull c buf))"
    and "rd_end (snd (ReadFull c buf)) = rd_end c"
  using ReadFull_loop_enough [of c "[]" "length buf"] assms
  by (simp_all add: ReadFull_def split_beta)

lemma ReadFull_short:
  assumes "\<not> closed c" and "length (concat (rd c)) < length buf"
  shows "fst (ReadFull c buf) =
           (concat (rd c) @ drop (length (concat (rd c))) buf, length (concat (rd c)),
            Some (if 0 < length (concat (rd c)) \<and> rd_end c = EOF
                  then ErrUnexpectedEOF else rd_end c))"
  using ReadFull_loop_short [of c "[]" "length buf"] assms
  by (simp add: ReadFull_def split_beta)

lemma ReadFull_empty: "ReadFull c [] = (([], 0, None), c)"
  by (simp add: ReadFull_def ReadFull_loop_done)

lemma ReadFull_enough_eq:
  assumes "\<not> closed c" and "concat (rd c) = bs @ rest" and "length buf = length bs"
  shows "ReadFull c buf = ((bs, length bs, None), snd (ReadFull c buf))"
  using ReadFull_enough(1) [of c buf] assms
  by (simp add: prod_eq_iff)

lemma ReadFull_enough_rest:
  assumes "\<not> closed c" and "concat (rd c) = bs @ rest" and "length buf = length bs"
  shows "concat (rd (snd (ReadFull c buf))) = rest"
    and "\<not> closed (snd (ReadFull c buf))"
    and "rd_end (snd (ReadFull c buf)) = rd_end c"
  using ReadFull_enough(2,3,4) [of c buf] assms
  by simp_all

lemma ReadFull_short_eq:
  assumes "\<not> closed c" and "length (concat (rd c)) < length buf"
  shows "ReadFull c buf =
           ((concat (rd c) @ drop (length (concat (rd c))) buf, length (concat (rd c)),
             Some (if 0 < length (concat (rd c)) \<and> rd_end c = EOF
                   then ErrUnexpectedEOF else rd_end c)),
            snd (ReadFull c buf))"
  using ReadFull_short [OF assms] by (simp add: prod_eq_iff)

section \<open>Lengths and their encoding\<close>

lemma sint_payload_size:
  "sint (ucast (w :: uint32) - (4 :: go_int)) = uint w - 4"
proof -
  have b: "uint w < 2 ^ 32"
    using uint_bounded [of w] by simp
  have u: "sint (ucast w :: go_int) = uint w"
  proof -
    have lo: "- (2 ^ 63) \<le> uint w"
      by (rule order_trans [of _ 0]) simp_all
    have hi: "uint w < 2 ^ 63"
      by (rule less_trans [OF b]) simp
    have "signed_take_bit 63 (uint w) = uint w"
      using lo hi by (rule signed_take_bit_int_eq_self)
    then show ?thesis
      by (simp add: signed_ucast_eq)
  qed
  have "sint (ucast w - (4 :: go_int)) = signed_take_bit 63 (sint (ucast w :: go_int) - sint (4 :: go_int))"
    by (simp add: sint_word_ariths)
  also have "\<dots> = signed_take_bit 63 (uint w - 4)"
    by (simp add: u)
  also have "\<dots> = uint w - 4"
  proof (rule signed_take_bit_int_eq_self)
    have "- (2 ^ 63) \<le> (- 4 :: int)" by simp
    also have "\<dots> \<le> uint w - 4" by simp
    finally show "- (2 ^ 63) \<le> uint w - 4" .
    have "uint w - 4 < 2 ^ 32" using b by simp
    also have "\<dots> < (2 ^ 63 :: int)" by simp
    finally show "uint w - 4 < 2 ^ 63" .
  qed
  finally show ?thesis .
qed

lemma Uint32_WriteInt32: "BigEndian_Uint32 (WriteInt32 [] v) = v"
  unfolding BigEndian_Uint32_def WriteInt32_def
  apply simp
  apply (rule bit_word_eqI)
  subgoal for n
    by (cases "n < 8"; cases "n < 16"; cases "n < 24") (auto simp: bit_simps not_less le_add_diff_inverse)
  done

lemma make_bytes_payload:
  assumes "4 \<le> unat w"
  shows "make_bytes (ucast (w :: uint32) - 4) = Inr (replicate (unat w - 4) 0)"
proof -
  have "uint w - 4 = int (unat w - 4)"
    using assms by (simp add: of_nat_diff)
  then show ?thesis
    by (simp add: make_bytes_def sint_payload_size)
qed

lemma make_bytes_negative:
  assumes "unat w < 4"
  shows "make_bytes (ucast (w :: uint32) - 4) = Inl MakeSliceLenOutOfRange"
proof -
  have "uint w = int (unat w)"
    by simp
  with assms have "uint w < 4"
    by linarith
  then show ?thesis
    by (simp add: make_bytes_def sint_payload_size)
qed

section \<open>Reading one message\<close>

lemma ReceiveStartupMessage_frame:
  assumes op: "\<not> closed c"
    and st: "concat (rd c) = header @ rest"
    and hd: "length header = 4"
    and lo: "4 \<le> unat (BigEndian_Uint32 header)"
    and av: "unat (BigEndian_Uint32 header) - 4 \<le> length rest"
  shows "ReceiveStartupMessage c =
           (Inr (header @ take (unat (BigEndian_Uint32 header) - 4) rest,
                 int (unat (BigEndian_Uint32 header)), None),
            after_frame c 4 (unat (BigEndian_Uint32 header) - 4))"
proof -
  define L where "L = unat (BigEndian_Uint32 header)"
  define c1 where "c1 = snd (ReadFull c (replicate 4 0))"
  define payload where "payload = replicate (L - 4) (0 :: byte)"
  have r1: "ReadFull c (replicate 4 0) = ((header, 4, None), c1)"
    using ReadFull_enough_eq [OF op st, of "replicate 4 0"] hd by (simp add: c1_def)
  have c1: "\<not> closed c1" "concat (rd c1) = rest"
    using ReadFull_enough_rest [OF op st, of "replicate 4 0"] hd by (simp_all add: c1_def)
  have mk: "make_bytes (ucast (BigEndian_Uint32 header) - 4) = Inr payload"
    using make_bytes_payload [OF lo] by (simp add: payload_def L_def)
  have sp: "concat (rd c1) = take (L - 4) rest @ drop (L - 4) rest"
    using c1(2) by simp
  have ln: "length payload = length (take (L - 4) rest)"
    using av by (simp add: payload_def L_def)
  define c2 where "c2 = snd (ReadFull c1 payload)"
  have r2: "ReadFull c1 payload = ((take (L - 4) rest, L - 4, None), c2)"
    using ReadFull_enough_eq [OF c1(1) sp ln] av by (simp add: L_def c2_def)
  have tot: "int (length (header @ take (L - 4) rest)) = int L"
    using hd lo av by (simp add: L_def)
  show ?thesis
    unfolding ReceiveStartupMessage_def after_frame_def L_def [symmetric]
      c1_def [symmetric] payload_def [symmetric] c2_def [symmetric]
    by (simp only: Let_def r1 mk r2 tot prod.case option.case sum.case append_Nil)
qed

lemma Receive_frame:
  assumes op: "\<not> closed c"
    and st: "concat (rd c) = header @ rest"
    and hd: "length header = 5"
    and lo: "4 \<le> unat (BigEndian_Uint32 (take 4 (drop 1 header)))"
    and av: "unat (BigEndian_Uint32 (take 4 (drop 1 header))) - 4 \<le> length rest"
  shows "Receive c =
           (Inr (header @ take (unat (BigEndian_Uint32 (take 4 (drop 1 header))) - 4) rest,
                 5 + int (unat (BigEndian_Uint32 (take 4 (drop 1 header))) - 4), None),
            after_frame c 5 (unat (BigEndian_Uint32 (take 4 (drop 1 header))) - 4))"
proof -
  define L where "L = unat (BigEndian_Uint32 (take 4 (drop 1 header)))"
  define c1 where "c1 = snd (ReadFull c (replicate 5 0))"
  define payload where "payload = replicate (L - 4) (0 :: byte)"
  have r1: "ReadFull c (replicate 5 0) = ((header, 5, None), c1)"
    using ReadFull_enough_eq [OF op st, of "replicate 5 0"] hd by (simp add: c1_def)
  have c1: "\<not> closed c1" "concat (rd c1) = rest"
    using ReadFull_enough_rest [OF op st, of "replicate 5 0"] hd by (simp_all add: c1_def)
  have mk: "make_bytes (ucast (BigEndian_Uint32 (take 4 (drop 1 header))) - 4) = Inr payload"
    using make_bytes_payload [OF lo] by (simp add: payload_def L_def)
  have sp: "concat (rd c1) = take (L - 4) rest @ drop (L - 4) rest"
    using c1(2) by simp
  have ln: "length payload = length (take (L - 4) rest)"
    using av by (simp add: payload_def L_def)
  define c2 where "c2 = snd (ReadFull c1 payload)"
  have r2: "ReadFull c1 payload = ((take (L - 4) rest, L - 4, None), c2)"
    using ReadFull_enough_eq [OF c1(1) sp ln] av by (simp add: L_def c2_def)
  have tot: "int (length (header @ take (L - 4) rest)) = 5 + int (L - 4)"
    using hd lo av by (simp add: L_def)
  show ?thesis
    unfolding Receive_def after_frame_def L_def [symmetric]
      c1_def [symmetric] payload_def [symmetric] c2_def [symmetric]
    by (simp only: Let_def r1 mk r2 tot prod.case option.case sum.case append_Nil)
qed

lemma after_frame_rest:
  assumes "\<not> closed c" and "concat (rd c) = header @ rest"
    and "length header = h" and "p \<le> length rest"
  shows "concat (rd (after_frame c h p)) = drop p rest"
proof -
  define c1 where "c1 = snd (ReadFull c (replicate h 0))"
  have c1: "\<not> closed c1" "concat (rd c1) = rest"
    using ReadFull_enough_rest [OF assms(1,2), of "replicate h 0"] assms(3)
    by (simp_all add: c1_def)
  have "concat (rd (snd (ReadFull c1 (replicate p 0)))) = drop p (concat (rd c1))"
    using ReadFull_enough(2) [OF c1(1), of "replicate p 0"] assms(4) c1(2) by simp
  then show ?thesis
    by (simp add: after_frame_def c1_def c1(2) [unfolded c1_def])
qed

lemma after_frame_zero: "after_frame c h 0 = snd (ReadFull c (replicate h 0))"
  by (simp add: after_frame_def ReadFull_empty)

text \<open>
  A stream that ends after the header and fewer payload bytes than the length announces:
  \<open>Receive\<close> returns the error together with the number of payload bytes read;
  \<open>ReceiveStartupMessage\<close> returns the error and the number 0.
\<close>

lemma Receive_truncated:
  assumes op: "\<not> closed c"
    and st: "concat (rd c) = header @ rest"
    and hd: "length header = 5"
    and lo: "4 \<le> unat (BigEndian_Uint32 (take 4 (drop 1 header)))"
    and av: "length rest < unat (BigEndian_Uint32 (take 4 (drop 1 header))) - 4"
  shows "fst (Receive c) =
           Inr ([], int (length rest),
                Some (if rest \<noteq> [] \<and> rd_end c = EOF then ErrUnexpectedEOF else rd_end c))"
proof -
  define L where "L = unat (BigEndian_Uint32 (take 4 (drop 1 header)))"
  define c1 where "c1 = snd (ReadFull c (replicate 5 0))"
  define payload where "payload = replicate (L - 4) (0 :: byte)"
  define c2 where "c2 = snd (ReadFull c1 payload)"
  have r1: "ReadFull c (replicate 5 0) = ((header, 5, None), c1)"
    using ReadFull_enough_eq [OF op st, of "replicate 5 0"] hd by (simp add: c1_def)
  have c1: "\<not> closed c1" "concat (rd c1) = rest" "rd_end c1 = rd_end c"
    using ReadFull_enough_rest [OF op st, of "replicate 5 0"] hd by (simp_all add: c1_def)
  have mk: "make_bytes (ucast (BigEndian_Uint32 (take 4 (drop 1 header))) - 4) = Inr payload"
    using make_bytes_payload [OF lo] by (simp add: payload_def L_def)
  have ln: "length (concat (rd c1)) < length payload"
    using av c1(2) by (simp add: payload_def L_def)
  have r2: "ReadFull c1 payload =
              ((rest @ drop (length rest) payload, length rest,
                Some (if 0 < length rest \<and> rd_end c = EOF then ErrUnexpectedEOF else rd_end c)),
               c2)"
    by (rule ReadFull_short_eq [OF c1(1) ln, unfolded c1(2) c1(3), folded c2_def])
  have "fst (Receive c) =
          Inr ([], int (length rest),
               Some (if 0 < length rest \<and> rd_end c = EOF then ErrUnexpectedEOF else rd_end c))"
    unfolding Receive_def L_def [symmetric]
    by (simp only: Let_def r1 mk r2 prod.case option.case sum.case append_Nil fst_conv)
  then show ?thesis
    by simp
qed

lemma ReceiveStartupMessage_truncated:
  assumes op: "\<not> closed c"
    and st: "concat (rd c) = header @ rest"
    and hd: "length header = 4"
    and lo: "4 \<le> unat (BigEndian_Uint32 header)"
    and av: "length rest < unat (BigEndian_Uint32 header) - 4"
  shows "fst (ReceiveStartupMessage c) =
           Inr ([], 0,
                Some (if rest \<noteq> [] \<and> rd_end c = EOF then ErrUnexpectedEOF else rd_end c))"
proof -
  define L where "L = unat (BigEndian_Uint32 header)"
  define c1 where "c1 = snd (ReadFull c (replicate 4 0))"
  define payload where "payload = replicate (L - 4) (0 :: byte)"
  define c2 where "c2 = snd (ReadFull c1 payload)"
  have r1: "ReadFull c (replicate 4 0) = ((header, 4, None), c1)"
    using ReadFull_enough_eq [OF op st, of "replicate 4 0"] hd by (simp add: c1_def)
  have c1: "\<not> closed c1" "concat (rd c1) = rest" "rd_end c1 = rd_end c"
    using ReadFull_enough_rest [OF op st, of "replicate 4 0"] hd by (simp_all add: c1_def)
  have mk: "make_bytes (ucast (BigEndian_Uint32 header) - 4) = Inr payload"
    using make_bytes_payload [OF lo] by (simp add: payload_def L_def)
  have ln: "length (concat (rd c1)) < length payload"
    using av c1(2) by (simp add: payload_def L_def)
  have r2: "ReadFull c1 payload =
              ((rest @ drop (length rest) payload, length rest,
                Some (if 0 < length rest \<and> rd_end c = EOF then ErrUnexpectedEOF else rd_end c)),
               c2)"
    by (rule ReadFull_short_eq [OF c1(1) ln, unfolded c1(2) c1(3), folded c2_def])
  have "fst (ReceiveStartupMessage c) =
          Inr ([], 0,
               Some (if 0 < length rest \<and> rd_end c = EOF then ErrUnexpectedEOF else rd_end c))"
    unfolding ReceiveStartupMessage_def L_def [symmetric]
    by (simp only: Let_def r1 mk r2 prod.case option.case sum.case append_Nil fst_conv)
  then show ?thesis
    by simp
qed

section \<open>Properties of the receive functions\<close>

text \<open>
  C4. Let the stream of an open connection begin with a well-formed startup message: four
  header bytes whose big-endian value \<open>L\<close> is at least 4, followed by at least \<open>L - 4\<close>
  further bytes. Then \<open>ReceiveStartupMessage\<close> returns without error the four header
  bytes followed by exactly the next \<open>L - 4\<close> bytes, the returned length is \<open>L\<close>, and
  the bytes after the message are left in the stream.
\<close>

theorem ReceiveStartupMessage_well_formed:
  assumes "\<not> closed c"
    and "concat (rd c) = header @ rest"
    and "length header = 4"
    and "4 \<le> unat (BigEndian_Uint32 header)"
    and "unat (BigEndian_Uint32 header) - 4 \<le> length rest"
  shows "fst (ReceiveStartupMessage c) =
           Inr (header @ take (unat (BigEndian_Uint32 header) - 4) rest,
                int (unat (BigEndian_Uint32 header)), None) \<and>
         concat (rd (snd (ReceiveStartupMessage c))) =
           drop (unat (BigEndian_Uint32 header) - 4) rest"
  using ReceiveStartupMessage_frame [OF assms] after_frame_rest [OF assms(1,2,3,5)]
  by simp

theorem ReceiveStartupMessage_well_formed_witness:
  "\<not> closed \<lparr>rd = [[0, 0], [0, 8, 1, 2, 3], [4, 9]], rd_end = EOF, wr = [], wr_err = None,
              closed = False, calls = []\<rparr> \<and>
   concat (rd \<lparr>rd = [[0, 0], [0, 8, 1, 2, 3], [4, 9]], rd_end = EOF, wr = [], wr_err = None,
              closed = False, calls = []\<rparr>) = [0, 0, 0, 8] @ [1, 2, 3, 4, 9] \<and>
   length [0, 0, 0, 8 :: byte] = 4 \<and>
   4 \<le> unat (BigEndian_Uint32 [0, 0, 0, 8]) \<and>
   unat (BigEndian_Uint32 [0, 0, 0, 8]) - 4 \<le> length [1, 2, 3, 4, 9 :: byte] \<and>
   fst (ReceiveStartupMessage
          \<lparr>rd = [[0, 0], [0, 8, 1, 2, 3], [4, 9]], rd_end = EOF, wr = [], wr_err = None,
           closed = False, calls = []\<rparr>) = Inr ([0, 0, 0, 8, 1, 2, 3, 4], 8, None) \<and>
   concat (rd (snd (ReceiveStartupMessage
          \<lparr>rd = [[0, 0], [0, 8, 1, 2, 3], [4, 9]], rd_end = EOF, wr = [], wr_err = None,
           closed = False, calls = []\<rparr>))) = [9]"
proof -
  have u: "BigEndian_Uint32 [0, 0, 0, 8] = 8"
    by (simp add: BigEndian_Uint32_def)
  show ?thesis
    using ReceiveStartupMessage_well_formed
      [of "\<lparr>rd = [[0, 0], [0, 8, 1, 2, 3], [4, 9]], rd_end = EOF, wr = [], wr_err = None,
            closed = False, calls = []\<rparr>" "[0, 0, 0, 8]" "[1, 2, 3, 4, 9]"]
    by (simp add: u)
qed

text \<open>
  C3. Let the stream of an open connection begin with a well-formed regular message: a
  type byte, four bytes whose big-endian value \<open>L\<close> is at least 4, and at least
  \<open>L - 4\<close> further bytes. Then \<open>Receive\<close> returns without error the five header bytes
  followed by exactly the next \<open>L - 4\<close> bytes, the returned length is \<open>5 + (L - 4)\<close>,
  and the bytes after the message are left in the stream.
\<close>

theorem Receive_well_formed:
  assumes "\<not> closed c"
    and "concat (rd c) = header @ rest"
    and "length header = 5"
    and "4 \<le> unat (BigEndian_Uint32 (take 4 (drop 1 header)))"
    and "unat (BigEndian_Uint32 (take 4 (drop 1 header))) - 4 \<le> length rest"
  shows "fst (Receive c) =
           Inr (header @ take (unat (BigEndian_Uint32 (take 4 (drop 1 header))) - 4) rest,
                5 + int (unat (BigEndian_Uint32 (take 4 (drop 1 header))) - 4), None) \<and>
         concat (rd (snd (Receive c))) =
           drop (unat (BigEndian_Uint32 (take 4 (drop 1 header))) - 4) rest"
  using Receive_frame [OF assms] after_frame_rest [OF assms(1,2,3,5)]
  by simp

theorem Receive_well_formed_witness:
  "\<not> closed \<lparr>rd = [[81, 0, 0], [0, 7, 1, 2], [3, 9]], rd_end = EOF, wr = [], wr_err = None,
              closed = False, calls = []\<rparr> \<and>
   concat (rd \<lparr>rd = [[81, 0, 0], [0, 7, 1, 2], [3, 9]], rd_end = EOF, wr = [], wr_err = None,
              closed = False, calls = []\<rparr>) = [81, 0, 0, 0, 7] @ [1, 2, 3, 9] \<and>
   length [81, 0, 0, 0, 7 :: byte] = 5 \<and>
   4 \<le> unat (BigEndian_Uint32 (take 4 (drop 1 [81, 0, 0, 0, 7]))) \<and>
   unat (BigEndian_Uint32 (take 4 (drop 1 [81, 0, 0, 0, 7]))) - 4 \<le> length [1, 2, 3, 9 :: byte] \<and>
   fst (Receive
          \<lparr>rd = [[81, 0, 0], [0, 7, 1, 2], [3, 9]], rd_end = EOF, wr = [], wr_err = None,
           closed = False, calls = []\<rparr>) = Inr ([81, 0, 0, 0, 7, 1, 2, 3], 8, None) \<and>
   concat (rd (snd (Receive
          \<lparr>rd = [[81, 0, 0], [0, 7, 1, 2], [3, 9]], rd_end = EOF, wr = [], wr_err = None,
           closed = False, calls = []\<rparr>))) = [9]"
proof -
  have u: "BigEndian_Uint32 [0, 0, 0, 7] = 7"
    by (simp add: BigEndian_Uint32_def)
  show ?thesis
    using Receive_well_formed
      [of "\<lparr>rd = [[81, 0, 0], [0, 7, 1, 2], [3, 9]], rd_end = EOF, wr = [], wr_err = None,
            closed = False, calls = []\<rparr>" "[81, 0, 0, 0, 7]" "[1, 2, 3, 9]"]
    by (simp add: u)
qed


text \<open>
  C2, as the code has it. When the decoded length is exactly 4, the payload buffer is
  empty, the zero-length read makes no call on the connection (the connection is left
  as the header read left it), and the message returned is the header alone, without
  error: four bytes from \<open>ReceiveStartupMessage\<close>, five from \<open>Receive\<close>.
\<close>

theorem zero_length_payload:
  assumes "\<not> closed c" and "concat (rd c) = header @ rest"
  shows "(length header = 4 \<and> unat (BigEndian_Uint32 header) = 4 \<longrightarrow>
            make_bytes (ucast (BigEndian_Uint32 header) - 4) = Inr [] \<and>
            ReceiveStartupMessage c =
              (Inr (header, 4, None), snd (ReadFull c (replicate 4 0)))) \<and>
         (length header = 5 \<and> unat (BigEndian_Uint32 (take 4 (drop 1 header))) = 4 \<longrightarrow>
            make_bytes (ucast (BigEndian_Uint32 (take 4 (drop 1 header))) - 4) = Inr [] \<and>
            Receive c = (Inr (header, 5, None), snd (ReadFull c (replicate 5 0))))"
proof (intro conjI impI; elim conjE)
  assume h: "length header = 4" and l: "unat (BigEndian_Uint32 header) = 4"
  show "make_bytes (ucast (BigEndian_Uint32 header) - 4) = Inr []"
    using make_bytes_payload [of "BigEndian_Uint32 header"] l by simp
  show "ReceiveStartupMessage c = (Inr (header, 4, None), snd (ReadFull c (replicate 4 0)))"
    using ReceiveStartupMessage_frame [OF assms h, unfolded l] by (simp add: after_frame_zero)
next
  assume h: "length header = 5"
    and l: "unat (BigEndian_Uint32 (take 4 (drop 1 header))) = 4"
  show "make_bytes (ucast (BigEndian_Uint32 (take 4 (drop 1 header))) - 4) = Inr []"
    using make_bytes_payload [of "BigEndian_Uint32 (take 4 (drop 1 header))"] l by simp
  show "Receive c = (Inr (header, 5, None), snd (ReadFull c (replicate 5 0)))"
    using Receive_frame [OF assms h, unfolded l] by (simp add: after_frame_zero)
qed

theorem zero_length_payload_witness:
  "(\<not> closed \<lparr>rd = [[0, 0, 0, 4, 7]], rd_end = EOF, wr = [], wr_err = None,
               closed = False, calls = []\<rparr> \<and>
    concat (rd \<lparr>rd = [[0, 0, 0, 4, 7]], rd_end = EOF, wr = [], wr_err = None,
               closed = False, calls = []\<rparr>) = [0, 0, 0, 4] @ [7] \<and>
    length [0, 0, 0, 4 :: byte] = 4 \<and> unat (BigEndian_Uint32 [0, 0, 0, 4]) = 4 \<and>
    ReceiveStartupMessage \<lparr>rd = [[0, 0, 0, 4, 7]], rd_end = EOF, wr = [], wr_err = None,
               closed = False, calls = []\<rparr> =
      (Inr ([0, 0, 0, 4], 4, None),
       \<lparr>rd = [[7]], rd_end = EOF, wr = [], wr_err = None, closed = False,
        calls = [ReadCall 4]\<rparr>)) \<and>
   (\<not> closed \<lparr>rd = [[83, 0, 0, 0, 4, 7]], rd_end = EOF, wr = [], wr_err = None,
               closed = False, calls = []\<rparr> \<and>
    concat (rd \<lparr>rd = [[83, 0, 0, 0, 4, 7]], rd_end = EOF, wr = [], wr_err = None,
               closed = False, calls = []\<rparr>) = [83, 0, 0, 0, 4] @ [7] \<and>
    length [83, 0, 0, 0, 4 :: byte] = 5 \<and>
    unat (BigEndian_Uint32 (take 4 (drop 1 [83, 0, 0, 0, 4]))) = 4 \<and>
    Receive \<lparr>rd = [[83, 0, 0, 0, 4, 7]], rd_end = EOF, wr = [], wr_err = None,
               closed = False, calls = []\<rparr> =
      (Inr ([83, 0, 0, 0, 4], 5, None),
       \<lparr>rd = [[7]], rd_end = EOF, wr = [], wr_err = None, closed = False,
        calls = [ReadCall 5]\<rparr>))"
proof -
  have u: "BigEndian_Uint32 [0, 0, 0, 4] = 4"
    by (simp add: BigEndian_Uint32_def)
  have r4: "snd (ReadFull \<lparr>rd = [[0, 0, 0, 4, 7]], rd_end = EOF, wr = [], wr_err = None,
               closed = False, calls = []\<rparr> (replicate 4 0)) =
            \<lparr>rd = [[7]], rd_end = EOF, wr = [], wr_err = None, closed = False,
             calls = [ReadCall 4]\<rparr>"
    by code_simp
  have r5: "snd (ReadFull \<lparr>rd = [[83, 0, 0, 0, 4, 7]], rd_end = EOF, wr = [], wr_err = None,
               closed = False, calls = []\<rparr> (replicate 5 0)) =
            \<lparr>rd = [[7]], rd_end = EOF, wr = [], wr_err = None, closed = False,
             calls = [ReadCall 5]\<rparr>"
    by code_simp
  show ?thesis
    using zero_length_payload
      [of "\<lparr>rd = [[0, 0, 0, 4, 7]], rd_end = EOF, wr = [], wr_err = None,
            closed = False, calls = []\<rparr>" "[0, 0, 0, 4]" "[7]"]
      zero_length_payload
      [of "\<lparr>rd = [[83, 0, 0, 0, 4, 7]], rd_end = EOF, wr = [], wr_err = None,
            closed = False, calls = []\<rparr>" "[83, 0, 0, 0, 4]" "[7]"]
    by (simp add: u r4 r5)
qed

text \<open>
  A length below 4 makes \<^verbatim>\<open>int(L) - 4\<close> negative, and \<^verbatim>\<open>make\<close> panics: neither function
  clamps the size. With the header \<open>00 00 00 00\<close> both calls end in the panic.
\<close>

theorem negative_payload_size_panics:
  "fst (ReceiveStartupMessage \<lparr>rd = [[0, 0, 0, 0]], rd_end = EOF, wr = [], wr_err = None,
          closed = False, calls = []\<rparr>) = Inl MakeSliceLenOutOfRange \<and>
   fst (Receive \<lparr>rd = [[81, 0, 0, 0, 0]], rd_end = EOF, wr = [], wr_err = None,
          closed = False, calls = []\<rparr>) = Inl MakeSliceLenOutOfRange"
  by code_simp

text \<open>
  C5. The stream \<open>00 00 00 08 01 02\<close> ends after two of the four payload bytes that the
  header announces. \<open>ReceiveStartupMessage\<close> fails with \<open>ErrUnexpectedEOF\<close> and reports
  the count 0, not 2. On the same truncated message with a type byte in front,
  \<open>Receive\<close> fails with the same error and reports 2.
\<close>

theorem ReceiveStartupMessage_drops_partial_count:
  "fst (ReceiveStartupMessage \<lparr>rd = [[0, 0, 0, 8], [1, 2]], rd_end = EOF, wr = [],
          wr_err = None, closed = False, calls = []\<rparr>) = Inr ([], 0, Some ErrUnexpectedEOF) \<and>
   fst (Receive \<lparr>rd = [[81, 0, 0, 0, 8], [1, 2]], rd_end = EOF, wr = [],
          wr_err = None, closed = False, calls = []\<rparr>) = Inr ([], 2, Some ErrUnexpectedEOF)"
  by code_simp

text \<open>
  C9. Whenever \<open>ReceiveStartupMessage\<close> or \<open>Receive\<close> returns without error, the integer
  returned is the length of the byte slice returned.
\<close>

theorem returned_length_is_slice_length:
  "(fst (ReceiveStartupMessage c) = Inr (bs, n, None) \<longrightarrow> n = int (length bs)) \<and>
   (fst (Receive c) = Inr (bs, n, None) \<longrightarrow> n = int (length bs))"
  by (auto simp: ReceiveStartupMessage_def Receive_def Let_def
           split: prod.splits option.splits sum.splits)

theorem returned_length_is_slice_length_witness:
  "(fst (ReceiveStartupMessage \<lparr>rd = [[0, 0, 0, 6, 1, 2]], rd_end = EOF, wr = [],
          wr_err = None, closed = False, calls = []\<rparr>) = Inr ([0, 0, 0, 6, 1, 2], 6, None) \<and>
    (6 :: int) = int (length [0, 0, 0, 6, 1, 2 :: byte])) \<and>
   (fst (Receive \<lparr>rd = [[68, 0, 0, 0, 6, 1, 2]], rd_end = EOF, wr = [],
          wr_err = None, closed = False, calls = []\<rparr>) = Inr ([68, 0, 0, 0, 6, 1, 2], 7, None) \<and>
    (7 :: int) = int (length [68, 0, 0, 0, 6, 1, 2 :: byte]))"
proof -
  have s: "fst (ReceiveStartupMessage \<lparr>rd = [[0, 0, 0, 6, 1, 2]], rd_end = EOF, wr = [],
          wr_err = None, closed = False, calls = []\<rparr>) = Inr ([0, 0, 0, 6, 1, 2], 6, None)"
    by code_simp
  have r: "fst (Receive \<lparr>rd = [[68, 0, 0, 0, 6, 1, 2]], rd_end = EOF, wr = [],
          wr_err = None, closed = False, calls = []\<rparr>) = Inr ([68, 0, 0, 0, 6, 1, 2], 7, None)"
    by code_simp
  from s r
    returned_length_is_slice_length
      [of "\<lparr>rd = [[0, 0, 0, 6, 1, 2]], rd_end = EOF, wr = [],
          wr_err = None, closed = False, calls = []\<rparr>" "[0, 0, 0, 6, 1, 2]" 6]
    returned_length_is_slice_length
      [of "\<lparr>rd = [[68, 0, 0, 0, 6, 1, 2]], rd_end = EOF, wr = [],
          wr_err = None, closed = False, calls = []\<rparr>" "[68, 0, 0, 0, 6, 1, 2]" 7]
  show ?thesis
    by simp
qed

text \<open>
  C7. The SSL request is the message built by \<open>Connect\<close>: the length 8, then the request
  code, four bytes each. When these eight bytes are the stream of an open connection,
  however they are cut into segments, \<open>ReceiveStartupMessage\<close> returns them without
  error with the length 8: the four length bytes followed by the four bytes of the code,
  from which the code is decoded again.
\<close>

theorem ssl_request_round_trip:
  assumes "\<not> closed c"
    and "concat (rd c) = WriteInt32 (WriteInt32 (NewMessageBuffer []) 8) code"
  shows "fst (ReceiveStartupMessage c) = Inr (WriteInt32 [] 8 @ WriteInt32 [] code, 8, None) \<and>
         length (WriteInt32 [] code) = 4 \<and>
         BigEndian_Uint32 (WriteInt32 [] code) = code"
proof -
  have st: "concat (rd c) = WriteInt32 [] 8 @ WriteInt32 [] code"
    using assms(2) by (simp add: WriteInt32_def NewMessageBuffer_def)
  have len: "length (WriteInt32 [] 8) = 4" "length (WriteInt32 [] code) = 4"
    by (simp_all add: WriteInt32_def)
  have u: "unat (BigEndian_Uint32 (WriteInt32 [] 8)) = 8"
    by (simp add: Uint32_WriteInt32)
  have "fst (ReceiveStartupMessage c) =
          Inr (WriteInt32 [] 8 @ take (8 - 4) (WriteInt32 [] code), int 8, None)"
    using ReceiveStartupMessage_frame [OF assms(1) st len(1), unfolded u] len(2)
    by simp
  then show ?thesis
    using len(2) by (simp add: Uint32_WriteInt32)
qed

theorem ssl_request_round_trip_witness:
  "\<not> closed \<lparr>rd = [[0, 0, 0], [8, 4, 210, 22, 47]], rd_end = EOF, wr = [],
              wr_err = None, closed = False, calls = []\<rparr> \<and>
   concat (rd \<lparr>rd = [[0, 0, 0], [8, 4, 210, 22, 47]], rd_end = EOF, wr = [],
              wr_err = None, closed = False, calls = []\<rparr>) =
     WriteInt32 (WriteInt32 (NewMessageBuffer []) 8) 80877103 \<and>
   fst (ReceiveStartupMessage \<lparr>rd = [[0, 0, 0], [8, 4, 210, 22, 47]], rd_end = EOF, wr = [],
              wr_err = None, closed = False, calls = []\<rparr>) =
     Inr ([0, 0, 0, 8, 4, 210, 22, 47], 8, None) \<and>
   BigEndian_Uint32 [4, 210, 22, 47] = 80877103"
proof -
  have w: "WriteInt32 [] 8 = [0, 0, 0, 8]" "WriteInt32 [] 80877103 = [4, 210, 22, 47]"
    by (simp_all add: WriteInt32_def drop_bit_eq_div)
  have m: "WriteInt32 (WriteInt32 (NewMessageBuffer []) 8) 80877103 =
             [0, 0, 0, 8, 4, 210, 22, 47]"
    using w by (simp add: WriteInt32_def NewMessageBuffer_def)
  show ?thesis
    using ssl_request_round_trip
      [of "\<lparr>rd = [[0, 0, 0], [8, 4, 210, 22, 47]], rd_end = EOF, wr = [],
              wr_err = None, closed = False, calls = []\<rparr>" 80877103]
    by (simp add: m w)
qed

section \<open>Properties of Connect\<close>

lemma response_first_byte:
  "(bs @ replicate (4096 - length bs) (0 :: byte)) ! 0 = (if bs = [] then 0 else hd bs)"
  by (cases bs) simp_all

lemma conn_Read_closed: "closed c \<Longrightarrow> fst (conn_Read c k) = Inl ErrClosed"
  by (simp add: conn_Read_def Let_def)

lemma Connect_negotiated:
  assumes "ssl_enable E" and "Dial E host = Inr c"
    and "conn_Write c (SSLRequestMessage E) = (Inr n, c1)"
    and "conn_Read c1 4096 = (Inr response, c2)"
  shows "Connect E host =
           (if response \<noteq> [] \<and> hd response = 0x53
            then (Some (UpgradeClientConnection E host c2), None,
                  Some (UpgradeClientConnection E host c2))
            else (Some (conn_Close c2), None, Some (conn_Close c2)))"
  using assms
  by (simp add: Connect_def Let_def response_first_byte)

text \<open>
  C6. Let SSL be enabled, the dial succeed, the SSL request be written and a response be
  read. The first byte of the response buffer alone decides: when it is \<open>'S'\<close> (0x53),
  \<open>Connect\<close> returns the connection that \<open>UpgradeClientConnection\<close> makes of the
  plaintext one; in every other case, an empty response among them, it closes the
  plaintext connection, on which every later read fails with the error of a closed
  connection.
\<close>

theorem ssl_response_first_byte_decides:
  assumes "ssl_enable E" and "Dial E host = Inr c"
    and "conn_Write c (SSLRequestMessage E) = (Inr n, c1)"
    and "conn_Read c1 4096 = (Inr response, c2)"
  shows "Connect E host =
           (if response \<noteq> [] \<and> hd response = 0x53
            then (Some (UpgradeClientConnection E host c2), None,
                  Some (UpgradeClientConnection E host c2))
            else (Some (conn_Close c2), None, Some (conn_Close c2))) \<and>
         closed (conn_Close c2) \<and>
         fst (conn_Read (conn_Close c2) k) = Inl ErrClosed"
  using Connect_negotiated [OF assms] conn_Read_closed [of "conn_Close c2" k]
  by (simp add: conn_Close_def)


theorem ssl_response_first_byte_decides_witness:
  "ssl_enable \<lparr>Dial = (\<lambda>h. Inr \<lparr>rd = [[83, 0, 0, 0]], rd_end = EOF, wr = [], wr_err = None,
                                    closed = False, calls = []\<rparr>),
               ssl_enable = True, SSLRequestCode = 80877103,
               UpgradeClientConnection = (\<lambda>h c. c\<lparr>wr := []\<rparr>)\<rparr> \<and>
   Connect \<lparr>Dial = (\<lambda>h. Inr \<lparr>rd = [[83, 0, 0, 0]], rd_end = EOF, wr = [], wr_err = None,
                                closed = False, calls = []\<rparr>),
            ssl_enable = True, SSLRequestCode = 80877103,
            UpgradeClientConnection = (\<lambda>h c. c\<lparr>wr := []\<rparr>)\<rparr> ''db:5432'' =
     (Some \<lparr>rd = [], rd_end = EOF, wr = [], wr_err = None, closed = False,
            calls = [WriteCall [0, 0, 0, 8, 4, 210, 22, 47], ReadCall 4096]\<rparr>,
      None,
      Some \<lparr>rd = [], rd_end = EOF, wr = [], wr_err = None, closed = False,
            calls = [WriteCall [0, 0, 0, 8, 4, 210, 22, 47], ReadCall 4096]\<rparr>) \<and>
   ssl_enable \<lparr>Dial = (\<lambda>h. Inr \<lparr>rd = [[]], rd_end = EOF, wr = [], wr_err = None,
                                    closed = False, calls = []\<rparr>),
               ssl_enable = True, SSLRequestCode = 80877103,
               UpgradeClientConnection = (\<lambda>h c. c\<lparr>wr := []\<rparr>)\<rparr> \<and>
   Connect \<lparr>Dial = (\<lambda>h. Inr \<lparr>rd = [[]], rd_end = EOF, wr = [], wr_err = None,
                                closed = False, calls = []\<rparr>),
            ssl_enable = True, SSLRequestCode = 80877103,
            UpgradeClientConnection = (\<lambda>h c. c\<lparr>wr := []\<rparr>)\<rparr> ''db:5432'' =
     (Some \<lparr>rd = [], rd_end = EOF, wr = [0, 0, 0, 8, 4, 210, 22, 47], wr_err = None,
            closed = True,
            calls = [WriteCall [0, 0, 0, 8, 4, 210, 22, 47], ReadCall 4096, CloseCall]\<rparr>,
      None,
      Some \<lparr>rd = [], rd_end = EOF, wr = [0, 0, 0, 8, 4, 210, 22, 47], wr_err = None,
            closed = True,
            calls = [WriteCall [0, 0, 0, 8, 4, 210, 22, 47], ReadCall 4096, CloseCall]\<rparr>) \<and>
   fst (conn_Read \<lparr>rd = [], rd_end = EOF, wr = [0, 0, 0, 8, 4, 210, 22, 47], wr_err = None,
            closed = True,
            calls = [WriteCall [0, 0, 0, 8, 4, 210, 22, 47], ReadCall 4096, CloseCall]\<rparr> 5) =
     Inl ErrClosed"
proof -
  have m: "WriteInt32 (WriteInt32 (NewMessageBuffer []) 8) 80877103 =
             [0, 0, 0, 8, 4, 210, 22, 47]"
    by (simp add: WriteInt32_def NewMessageBuffer_def drop_bit_eq_div)
  show ?thesis
    using ssl_response_first_byte_decides
      [of "\<lparr>Dial = (\<lambda>h. Inr \<lparr>rd = [[83, 0, 0, 0]], rd_end = EOF, wr = [], wr_err = None,
                                    closed = False, calls = []\<rparr>),
               ssl_enable = True, SSLRequestCode = 80877103,
               UpgradeClientConnection = (\<lambda>h c. c\<lparr>wr := []\<rparr>)\<rparr>" "''db:5432''"
          "\<lparr>rd = [[83, 0, 0, 0]], rd_end = EOF, wr = [], wr_err = None,
            closed = False, calls = []\<rparr>"
          8
          "\<lparr>rd = [[83, 0, 0, 0]], rd_end = EOF, wr = [0, 0, 0, 8, 4, 210, 22, 47],
            wr_err = None, closed = False,
            calls = [WriteCall [0, 0, 0, 8, 4, 210, 22, 47]]\<rparr>"
          "[83, 0, 0, 0]"
          "\<lparr>rd = [], rd_end = EOF, wr = [0, 0, 0, 8, 4, 210, 22, 47],
            wr_err = None, closed = False,
            calls = [WriteCall [0, 0, 0, 8, 4, 210, 22, 47], ReadCall 4096]\<rparr>" 5]
      ssl_response_first_byte_decides
      [of "\<lparr>Dial = (\<lambda>h. Inr \<lparr>rd = [[]], rd_end = EOF, wr = [], wr_err = None,
                                    closed = False, calls = []\<rparr>),
               ssl_enable = True, SSLRequestCode = 80877103,
               UpgradeClientConnection = (\<lambda>h c. c\<lparr>wr := []\<rparr>)\<rparr>" "''db:5432''"
          "\<lparr>rd = [[]], rd_end = EOF, wr = [], wr_err = None,
            closed = False, calls = []\<rparr>"
          8
          "\<lparr>rd = [[]], rd_end = EOF, wr = [0, 0, 0, 8, 4, 210, 22, 47],
            wr_err = None, closed = False,
            calls = [WriteCall [0, 0, 0, 8, 4, 210, 22, 47]]\<rparr>"
          "[]"
          "\<lparr>rd = [], rd_end = EOF, wr = [0, 0, 0, 8, 4, 210, 22, 47],
            wr_err = None, closed = False,
            calls = [WriteCall [0, 0, 0, 8, 4, 210, 22, 47], ReadCall 4096]\<rparr>" 5]
    by (simp add: m conn_Write_def conn_Read_def conn_Close_def Let_def)
qed

text \<open>
  C1. SSL is enabled, the dial succeeds, the request is written and the backend answers
  \<open>'N'\<close> (0x4E). \<open>Connect\<close> closes the connection and then returns that closed
  connection with a \<^verbatim>\<open>nil\<close> error, where the comment above the test announces "close
  the connection and throw an error".
\<close>

theorem Connect_returns_closed_connection_without_error:
  "Connect \<lparr>Dial = (\<lambda>h. Inr \<lparr>rd = [[78]], rd_end = EOF, wr = [], wr_err = None,
                                closed = False, calls = []\<rparr>),
            ssl_enable = True, SSLRequestCode = 80877103,
            UpgradeClientConnection = (\<lambda>h c. c)\<rparr> ''db:5432'' =
     (Some \<lparr>rd = [], rd_end = EOF, wr = [0, 0, 0, 8, 4, 210, 22, 47], wr_err = None,
            closed = True,
            calls = [WriteCall [0, 0, 0, 8, 4, 210, 22, 47], ReadCall 4096, CloseCall]\<rparr>,
      None,
      Some \<lparr>rd = [], rd_end = EOF, wr = [0, 0, 0, 8, 4, 210, 22, 47], wr_err = None,
            closed = True,
            calls = [WriteCall [0, 0, 0, 8, 4, 210, 22, 47], ReadCall 4096, CloseCall]\<rparr>)"
  by (simp add: Connect_def conn_Write_def conn_Read_def conn_Close_def Let_def
        WriteInt32_def NewMessageBuffer_def drop_bit_eq_div)

text \<open>
  C8. Let SSL be enabled and the dial succeed. When the write of the SSL request fails,
  \<open>Connect\<close> returns that error and no connection, after this one write and no read.
  When the write succeeds and the read of the response fails, \<open>Connect\<close> returns that
  error and no connection, after this one write and this one read.
\<close>

theorem Connect_io_failure_is_fatal:
  assumes "ssl_enable E" and "Dial E host = Inr c"
    and "conn_Write c (SSLRequestMessage E) = (w, c1)"
    and "conn_Read c1 4096 = (r, c2)"
  shows "(w = Inl e \<longrightarrow>
            Connect E host = (None, Some e, Some c1) \<and>
            calls c1 = calls c @ [WriteCall (SSLRequestMessage E)]) \<and>
         ((\<exists>n. w = Inr n) \<and> r = Inl e \<longrightarrow>
            Connect E host = (None, Some e, Some c2) \<and>
            calls c2 = calls c @ [WriteCall (SSLRequestMessage E), ReadCall 4096])"
proof -
  have w: "calls c1 = calls c @ [WriteCall (SSLRequestMessage E)]"
    using assms(3) by (auto simp: conn_Write_def Let_def split: if_splits option.splits)
  have r: "calls c2 = calls c1 @ [ReadCall 4096]"
    using assms(4) by (auto simp: conn_Read_def Let_def split: if_splits list.splits)
  show ?thesis
    using assms w r by (auto simp: Connect_def Let_def)
qed

theorem Connect_io_failure_is_fatal_witness:
  "Connect \<lparr>Dial = (\<lambda>h. Inr \<lparr>rd = [[83]], rd_end = EOF, wr = [], wr_err = Some (NetError 32),
                                closed = False, calls = []\<rparr>),
            ssl_enable = True, SSLRequestCode = 80877103,
            UpgradeClientConnection = (\<lambda>h c. c)\<rparr> ''db:5432'' =
     (None, Some (NetError 32),
      Some \<lparr>rd = [[83]], rd_end = EOF, wr = [], wr_err = Some (NetError 32), closed = False,
            calls = [WriteCall [0, 0, 0, 8, 4, 210, 22, 47]]\<rparr>) \<and>
   Connect \<lparr>Dial = (\<lambda>h. Inr \<lparr>rd = [], rd_end = NetError 104, wr = [], wr_err = None,
                                closed = False, calls = []\<rparr>),
            ssl_enable = True, SSLRequestCode = 80877103,
            UpgradeClientConnection = (\<lambda>h c. c)\<rparr> ''db:5432'' =
     (None, Some (NetError 104),
      Some \<lparr>rd = [], rd_end = NetError 104, wr = [0, 0, 0, 8, 4, 210, 22, 47],
            wr_err = None, closed = False,
            calls = [WriteCall [0, 0, 0, 8, 4, 210, 22, 47], ReadCall 4096]\<rparr>)"
proof -
  have m: "WriteInt32 (WriteInt32 (NewMessageBuffer []) 8) 80877103 =
             [0, 0, 0, 8, 4, 210, 22, 47]"
    by (simp add: WriteInt32_def NewMessageBuffer_def drop_bit_eq_div)
  show ?thesis
    using Connect_io_failure_is_fatal
      [of "\<lparr>Dial = (\<lambda>h. Inr \<lparr>rd = [[83]], rd_end = EOF, wr = [],
                                wr_err = Some (NetError 32), closed = False, calls = []\<rparr>),
            ssl_enable = True, SSLRequestCode = 80877103,
            UpgradeClientConnection = (\<lambda>h c. c)\<rparr>" "''db:5432''"
          "\<lparr>rd = [[83]], rd_end = EOF, wr = [], wr_err = Some (NetError 32),
            closed = False, calls = []\<rparr>"
          "Inl (NetError 32)"
          "\<lparr>rd = [[83]], rd_end = EOF, wr = [], wr_err = Some (NetError 32), closed = False,
            calls = [WriteCall [0, 0, 0, 8, 4, 210, 22, 47]]\<rparr>"
          "Inr [83]"
          "\<lparr>rd = [], rd_end = EOF, wr = [], wr_err = Some (NetError 32), closed = False,
            calls = [WriteCall [0, 0, 0, 8, 4, 210, 22, 47], ReadCall 4096]\<rparr>"
          "NetError 32"]
      Connect_io_failure_is_fatal
      [of "\<lparr>Dial = (\<lambda>h. Inr \<lparr>rd = [], rd_end = NetError 104, wr = [], wr_err = None,
                                closed = False, calls = []\<rparr>),
            ssl_enable = True, SSLRequestCode = 80877103,
            UpgradeClientConnection = (\<lambda>h c. c)\<rparr>" "''db:5432''"
          "\<lparr>rd = [], rd_end = NetError 104, wr = [], wr_err = None,
            closed = False, calls = []\<rparr>"
          "Inr 8"
          "\<lparr>rd = [], rd_end = NetError 104, wr = [0, 0, 0, 8, 4, 210, 22, 47],
            wr_err = None, closed = False,
            calls = [WriteCall [0, 0, 0, 8, 4, 210, 22, 47]]\<rparr>"
          "Inl (NetError 104)"
          "\<lparr>rd = [], rd_end = NetError 104, wr = [0, 0, 0, 8, 4, 210, 22, 47],
            wr_err = None, closed = False,
            calls = [WriteCall [0, 0, 0, 8, 4, 210, 22, 47], ReadCall 4096]\<rparr>"
          "NetError 104"]
    by (simp add: m conn_Write_def conn_Read_def Let_def)
qed

text \<open>
  C10. When SSL is not enabled and the dial succeeds, \<open>Connect\<close> returns the dialed
  connection as the dial gave it, with no error: nothing has been read from it or
  written to it, and no call has been made on it.
\<close>

theorem Connect_without_ssl:
  assumes "\<not> ssl_enable E" and "Dial E host = Inr c"
  shows "Connect E host = (Some c, None, Some c)"
  using assms by (simp add: Connect_def)

theorem Connect_without_ssl_witness:
  "\<not> ssl_enable \<lparr>Dial = (\<lambda>h. Inr \<lparr>rd = [[82, 0, 0, 0, 8, 0, 0, 0, 0]], rd_end = EOF, wr = [],
                                      wr_err = None, closed = False, calls = []\<rparr>),
                 ssl_enable = False, SSLRequestCode = 80877103,
                 UpgradeClientConnection = (\<lambda>h c. c)\<rparr> \<and>
   Connect \<lparr>Dial = (\<lambda>h. Inr \<lparr>rd = [[82, 0, 0, 0, 8, 0, 0, 0, 0]], rd_end = EOF, wr = [],
                                wr_err = None, closed = False, calls = []\<rparr>),
            ssl_enable = False, SSLRequestCode = 80877103,
            UpgradeClientConnection = (\<lambda>h c. c)\<rparr> ''db:5432'' =
     (Some \<lparr>rd = [[82, 0, 0, 0, 8, 0, 0, 0, 0]], rd_end = EOF, wr = [], wr_err = None,
            closed = False, calls = []\<rparr>,
      None,
      Some \<lparr>rd = [[82, 0, 0, 0, 8, 0, 0, 0, 0]], rd_end = EOF, wr = [], wr_err = None,
            closed = False, calls = []\<rparr>)"
  using Connect_without_ssl
    [of "\<lparr>Dial = (\<lambda>h. Inr \<lparr>rd = [[82, 0, 0, 0, 8, 0, 0, 0, 0]], rd_end = EOF, wr = [],
                                wr_err = None, closed = False, calls = []\<rparr>),
            ssl_enable = False, SSLRequestCode = 80877103,
            UpgradeClientConnection = (\<lambda>h c. c)\<rparr>" "''db:5432''"
        "\<lparr>rd = [[82, 0, 0, 0, 8, 0, 0, 0, 0]], rd_end = EOF, wr = [], wr_err = None,
            closed = False, calls = []\<rparr>"]
  by simp

end
